theory Spec2Isabelle
  imports Main
begin

section \<open>Circuits as the script builds them\<close>

text \<open>
  The script \<^verbatim>\<open>deutsch_algorithm.py\<close> builds circuits by calling the methods
  \<^verbatim>\<open>x\<close>, \<^verbatim>\<open>h\<close>, \<^verbatim>\<open>cx\<close> and \<^verbatim>\<open>measure\<close> of a circuit object; each call
  appends one operation to the circuit. The model records exactly that: the register
  sizes given to the constructor and the ordered list of operations appended so far.
  \<open>Flip q\<close> is the call \<^verbatim>\<open>qc.x(q)\<close>, \<open>ControlledFlip c t\<close> is \<^verbatim>\<open>qc.cx(c, t)\<close>,
  \<open>Hadamard q\<close> is \<^verbatim>\<open>qc.h(q)\<close> and \<open>Measure qs cs\<close> is \<^verbatim>\<open>qc.measure(qs, cs)\<close>.
  What the simulation library does with a circuit (operand validation, sampling,
  noise) is outside this development: only the circuit handed over is modelled.
\<close>

datatype GateOp =
    Flip nat
  | ControlledFlip nat nat
  | Hadamard nat
  | Measure "nat list" "nat list"

record QuantumCircuit =
  num_qubits :: nat
  num_clbits :: nat
  data :: "GateOp list"

datatype py_error = ValueError string | KeyError string

definition new_circuit :: "nat \<Rightarrow> nat \<Rightarrow> QuantumCircuit" where
  "new_circuit nq nc = \<lparr>num_qubits = nq, num_clbits = nc, data = []\<rparr>"

definition qc_x :: "QuantumCircuit \<Rightarrow> nat \<Rightarrow> QuantumCircuit" where
  "qc_x qc q = qc\<lparr>data := data qc @ [Flip q]\<rparr>"

definition qc_h :: "QuantumCircuit \<Rightarrow> nat \<Rightarrow> QuantumCircuit" where
  "qc_h qc q = qc\<lparr>data := data qc @ [Hadamard q]\<rparr>"

definition qc_cx :: "QuantumCircuit \<Rightarrow> nat \<Rightarrow> nat \<Rightarrow> QuantumCircuit" where
  "qc_cx qc c t = qc\<lparr>data := data qc @ [ControlledFlip c t]\<rparr>"

definition qc_measure :: "QuantumCircuit \<Rightarrow> nat list \<Rightarrow> nat list \<Rightarrow> QuantumCircuit" where
  "qc_measure qc qs cs = qc\<lparr>data := data qc @ [Measure qs cs]\<rparr>"

text \<open>
  The operations a block of code appended to a circuit: what the circuit holds after the
  block, beyond what it held before.
\<close>

definition emitted :: "QuantumCircuit \<Rightarrow> QuantumCircuit \<Rightarrow> GateOp list" where
  "emitted qc qc' = drop (length (data qc)) (data qc')"

section \<open>Deutsch's algorithm for one input bit\<close>

text \<open>
  Lines 29 to 44 of \<^verbatim>\<open>deutsch_algorithm\<close>: the oracle block, an \<^verbatim>\<open>if/elif\<close> chain
  on the oracle's name whose last branch raises \<^verbatim>\<open>ValueError("Invalid oracle type")\<close>.
  The circuit is the state the block works on.
\<close>

definition deutsch_oracle :: "QuantumCircuit \<Rightarrow> string \<Rightarrow> py_error + QuantumCircuit" where
  "deutsch_oracle qc oracle_type =
     (if oracle_type = ''constant_0'' then Inr qc
      else if oracle_type = ''constant_1'' then Inr (qc_x qc 1)
      else if oracle_type = ''balanced_01'' then Inr (qc_cx qc 0 1)
      else if oracle_type = ''balanced_10'' then Inr (qc_x (qc_cx (qc_x qc 1) 0 1) 1)
      else Inl (ValueError ''Invalid oracle type''))"

text \<open>
  Lines 19 to 50 of \<^verbatim>\<open>deutsch_algorithm\<close>: the circuit that is handed to the
  simulator. An exception of the oracle block leaves the function, so no circuit is
  handed over.
\<close>

definition deutsch_algorithm_circuit :: "string \<Rightarrow> py_error + QuantumCircuit" where
  "deutsch_algorithm_circuit oracle_type =
     (let qc = new_circuit 2 1;
          qc = qc_x qc 1;
          qc = qc_h qc 0;
          qc = qc_h qc 1
      in case deutsch_oracle qc oracle_type of
           Inl e \<Rightarrow> Inl e
         | Inr qc \<Rightarrow> Inr (qc_measure (qc_h qc 0) [0] [0]))"

text \<open>The gate sequence the oracle block emits when it runs on the circuit \<open>qc\<close>.\<close>

definition deutsch_oracle_ops :: "QuantumCircuit \<Rightarrow> string \<Rightarrow> py_error + GateOp list" where
  "deutsch_oracle_ops qc oracle_type =
     (case deutsch_oracle qc oracle_type of
        Inl e \<Rightarrow> Inl e
      | Inr qc' \<Rightarrow> Inr (emitted qc qc'))"

section \<open>Measurement histograms and \<^verbatim>\<open>interpret_result\<close>\<close>

text \<open>
  A histogram is a Python \<^verbatim>\<open>dict\<close> from bitstrings to counts. It is modelled as the
  list of its items in insertion order; a \<^verbatim>\<open>dict\<close> has no key twice, but no result
  below needs that. \<open>dict_contains\<close> is \<^verbatim>\<open>key in counts\<close>, \<open>dict_getitem\<close> is
  \<^verbatim>\<open>counts[key]\<close> (a \<^verbatim>\<open>KeyError\<close> for a missing key), \<open>dict_get\<close> is
  \<^verbatim>\<open>counts.get(key, default)\<close> and \<open>dict_keys\<close> is \<^verbatim>\<open>counts.keys()\<close>.
\<close>

type_synonym histogram = "(string \<times> int) list"

definition dict_contains :: "histogram \<Rightarrow> string \<Rightarrow> bool" where
  "dict_contains counts key = (map_of counts key \<noteq> None)"

definition dict_getitem :: "histogram \<Rightarrow> string \<Rightarrow> py_error + int" where
  "dict_getitem counts key =
     (case map_of counts key of None \<Rightarrow> Inl (KeyError key) | Some v \<Rightarrow> Inr v)"

definition dict_get :: "histogram \<Rightarrow> string \<Rightarrow> int \<Rightarrow> int" where
  "dict_get counts key dflt = (case map_of counts key of None \<Rightarrow> dflt | Some v \<Rightarrow> v)"

definition dict_keys :: "histogram \<Rightarrow> string list" where
  "dict_keys counts = map fst counts"

text \<open>
  Lines 70 to 73. Python's \<^verbatim>\<open>and\<close> evaluates its right operand only when the left
  one holds, so \<^verbatim>\<open>counts['0']\<close> is read only after \<^verbatim>\<open>'0' in counts\<close>.
\<close>

definition interpret_result :: "histogram \<Rightarrow> py_error + string" where
  "interpret_result counts =
     (if dict_contains counts ''0'' then
        (case dict_getitem counts ''0'' of
           Inl e \<Rightarrow> Inl e
         | Inr c0 \<Rightarrow>
             if c0 > dict_get counts ''1'' 0 then Inr ''constant'' else Inr ''balanced'')
      else Inr ''balanced'')"

section \<open>The Deutsch-Jozsa part of the script\<close>

text \<open>
  Lines 139 to 146: \<^verbatim>\<open>deutsch_jozsa_oracle(qc, oracle_type, n)\<close>. The chain has no
  final \<^verbatim>\<open>else\<close>: a name that matches no branch falls through and the function
  returns with the circuit as it was.
\<close>

definition deutsch_jozsa_oracle :: "QuantumCircuit \<Rightarrow> string \<Rightarrow> nat \<Rightarrow> QuantumCircuit" where
  "deutsch_jozsa_oracle qc oracle_type n =
     (if oracle_type = ''constant_0'' then qc
      else if oracle_type = ''constant_1'' then qc_x qc n
      else if oracle_type = ''balanced'' then qc_cx qc 0 n
      else qc)"

text \<open>Lines 149 to 156 of \<^verbatim>\<open>deutsch_jozsa(n, oracle_type)\<close>: the circuit it builds.\<close>

definition deutsch_jozsa_circuit :: "nat \<Rightarrow> string \<Rightarrow> QuantumCircuit" where
  "deutsch_jozsa_circuit n oracle_type =
     (let qc = new_circuit (n + 1) n;
          qc = qc_x qc n;
          qc = foldl qc_h qc [0..<n + 1];
          qc = deutsch_jozsa_oracle qc oracle_type n;
          qc = foldl qc_h qc [0..<n]
      in qc_measure qc [0..<n] [0..<n])"

definition deutsch_jozsa_oracle_ops :: "QuantumCircuit \<Rightarrow> string \<Rightarrow> nat \<Rightarrow> GateOp list" where
  "deutsch_jozsa_oracle_ops qc oracle_type n = emitted qc (deutsch_jozsa_oracle qc oracle_type n)"

text \<open>
  Line 166: \<^verbatim>\<open>is_constant = all(key == '0'*3 for key in counts.keys())\<close>, and line 167,
  which prints \<^verbatim>\<open>'constant' if is_constant else 'balanced'\<close>. The width 3 is a literal
  of the script, which runs the Deutsch-Jozsa circuit for three input bits only.
\<close>

definition is_constant :: "histogram \<Rightarrow> bool" where
  "is_constant counts = list_all (\<lambda>key. key = replicate 3 CHR ''0'') (dict_keys counts)"

definition dj_label :: "histogram \<Rightarrow> string" where
  "dj_label counts = (if is_constant counts then ''constant'' else ''balanced'')"

section \<open>Auxiliary facts\<close>

lemma emitted_append [simp]: "emitted qc (qc\<lparr>data := data qc @ ops\<rparr>) = ops"
  by (simp add: emitted_def)

lemma emitted_self [simp]: "emitted qc qc = []"
  by (simp add: emitted_def)

lemma interpret_result_map_of:
  "interpret_result counts =
     (case map_of counts ''0'' of
        None \<Rightarrow> Inr ''balanced''
      | Some c0 \<Rightarrow> if c0 > dict_get counts ''1'' 0 then Inr ''constant'' else Inr ''balanced'')"
  by (simp add: interpret_result_def dict_contains_def dict_getitem_def split: option.splits)

lemma is_constant_set: "is_constant counts \<longleftrightarrow> set (dict_keys counts) \<subseteq> {''000''}"
  by (auto simp: is_constant_def list_all_iff numeral_3_eq_3)

lemma deutsch_oracle_unrecognized:
  "oracle_type \<notin> {''constant_0'', ''constant_1'', ''balanced_01'', ''balanced_10''} \<Longrightarrow>
   deutsch_oracle qc oracle_type = Inl (ValueError ''Invalid oracle type'')"
  by (simp add: deutsch_oracle_def)

lemma deutsch_oracle_succeeds_iff:
  "(\<exists>qc'. deutsch_oracle qc oracle_type = Inr qc') \<longleftrightarrow>
   oracle_type \<in> {''constant_0'', ''constant_1'', ''balanced_01'', ''balanced_10''}"
  by (simp add: deutsch_oracle_def)

lemma deutsch_algorithm_circuit_unrecognized:
  "oracle_type \<notin> {''constant_0'', ''constant_1'', ''balanced_01'', ''balanced_10''} \<Longrightarrow>
   deutsch_algorithm_circuit oracle_type = Inl (ValueError ''Invalid oracle type'')"
  by (simp add: deutsch_algorithm_circuit_def deutsch_oracle_unrecognized)

lemma deutsch_algorithm_circuit_balanced_10:
  "deutsch_algorithm_circuit ''balanced_10'' =
     Inr \<lparr>num_qubits = 2, num_clbits = 1,
          data = [Flip 1, Hadamard 0, Hadamard 1, Flip 1, ControlledFlip 0 1, Flip 1,
                  Hadamard 0, Measure [0] [0]]\<rparr>"
  by (simp add: deutsch_algorithm_circuit_def deutsch_oracle_def new_circuit_def qc_x_def
      qc_h_def qc_cx_def qc_measure_def)

section \<open>The classifier for one input bit\<close>

text \<open>
  Claim C1. For every histogram, \<^verbatim>\<open>interpret_result\<close> returns \<^verbatim>\<open>'constant'\<close> exactly
  when the key \<^verbatim>\<open>"0"\<close> is present and its count is strictly greater than the count of
  \<^verbatim>\<open>"1"\<close>, an absent \<^verbatim>\<open>"1"\<close> counting as 0; in every other case it returns
  \<^verbatim>\<open>'balanced'\<close>. The other cases include the empty histogram, a histogram without the
  key \<^verbatim>\<open>"0"\<close>, and a tie of the two counts (both present and equal, or \<^verbatim>\<open>"0"\<close> stored
  with count 0 and \<^verbatim>\<open>"1"\<close> absent).
\<close>

theorem interpret_result_constant_iff:
  "(interpret_result counts = Inr ''constant'' \<longleftrightarrow>
      (\<exists>c0. map_of counts ''0'' = Some c0 \<and>
            c0 > (case map_of counts ''1'' of None \<Rightarrow> 0 | Some c1 \<Rightarrow> c1)))
   \<and> (interpret_result counts = Inr ''balanced'' \<longleftrightarrow>
      \<not> (\<exists>c0. map_of counts ''0'' = Some c0 \<and>
            c0 > (case map_of counts ''1'' of None \<Rightarrow> 0 | Some c1 \<Rightarrow> c1)))
   \<and> interpret_result [] = Inr ''balanced''
   \<and> (map_of counts ''0'' = None \<longrightarrow> interpret_result counts = Inr ''balanced'')
   \<and> (map_of counts ''0'' = Some c \<and> map_of counts ''1'' = Some c \<longrightarrow>
        interpret_result counts = Inr ''balanced'')
   \<and> (map_of counts ''0'' = Some 0 \<and> map_of counts ''1'' = None \<longrightarrow>
        interpret_result counts = Inr ''balanced'')"
  by (simp add: interpret_result_map_of dict_get_def split: option.splits)

theorem interpret_result_constant_iff_witness:
  "interpret_result [(''0'', 5), (''1'', 5)] = Inr ''balanced''
   \<and> interpret_result [(''1'', 1024)] = Inr ''balanced''
   \<and> interpret_result [(''0'', 0)] = Inr ''balanced''
   \<and> interpret_result [(''0'', 1024)] = Inr ''constant''"
  using interpret_result_constant_iff [of "[(''0'', 5), (''1'', 5)]" 5]
    interpret_result_constant_iff [of "[(''1'', 1024)]" 0]
    interpret_result_constant_iff [of "[(''0'', 0)]" 0]
    interpret_result_constant_iff [of "[(''0'', 1024)]" 0]
  by simp

text \<open>
  Claim C9. The result of \<^verbatim>\<open>interpret_result\<close> depends only on whether \<^verbatim>\<open>"0"\<close> is a
  key, on the count stored under \<^verbatim>\<open>"0"\<close> and on the count of \<^verbatim>\<open>"1"\<close> (0 when
  absent): two histograms that agree on these are classified alike. In particular a
  further key, other than \<^verbatim>\<open>"0"\<close> and \<^verbatim>\<open>"1"\<close>, never changes the result, whatever its
  count.
\<close>

theorem interpret_result_depends_only_on_0_and_1:
  "(map_of h1 ''0'' = map_of h2 ''0'' \<and>
    (case map_of h1 ''1'' of None \<Rightarrow> 0 | Some c \<Rightarrow> c) =
    (case map_of h2 ''1'' of None \<Rightarrow> 0 | Some c \<Rightarrow> c) \<longrightarrow>
    interpret_result h1 = interpret_result h2)
   \<and> (key \<noteq> ''0'' \<and> key \<noteq> ''1'' \<longrightarrow>
        interpret_result (counts @ [(key, v)]) = interpret_result counts)"
  by (auto simp: interpret_result_map_of dict_get_def map_add_def split: option.splits)

theorem interpret_result_depends_only_on_0_and_1_witness:
  "interpret_result [(''0'', 600), (''1'', 424)] =
     interpret_result [(''101'', 7), (''0'', 600), (''1'', 424), (''11'', 3)]
   \<and> interpret_result [(''0'', 5)] = interpret_result [(''0'', 5), (''1'', 0)]
   \<and> interpret_result ([(''0'', 5), (''1'', 9)] @ [(''0110'', 1000)]) =
       interpret_result [(''0'', 5), (''1'', 9)]"
  using interpret_result_depends_only_on_0_and_1
      [of "[(''0'', 600), (''1'', 424)]" "[(''101'', 7), (''0'', 600), (''1'', 424), (''11'', 3)]"
          "''0110''" "[(''0'', 5), (''1'', 9)]" 1000]
    interpret_result_depends_only_on_0_and_1
      [of "[(''0'', 5)]" "[(''0'', 5), (''1'', 0)]" "''0110''" "[(''0'', 5), (''1'', 9)]" 1000]
  by simp

section \<open>The oracle blocks\<close>

text \<open>
  Claim C2. For each of the four oracle names that \<^verbatim>\<open>deutsch_algorithm\<close> recognises,
  the oracle block emits exactly this gate sequence, in this order, whatever circuit it
  runs on: \<^verbatim>\<open>constant_0\<close> nothing, \<^verbatim>\<open>constant_1\<close> the single flip of bit 1,
  \<^verbatim>\<open>balanced_01\<close> the single controlled flip of bit 1 by bit 0, and \<^verbatim>\<open>balanced_10\<close>
  a flip of bit 1, the controlled flip of bit 1 by bit 0, and a flip of bit 1 again. The
  circuit is otherwise unchanged.
\<close>

theorem deutsch_oracle_gate_sequences:
  "deutsch_oracle_ops qc ''constant_0'' = Inr []
   \<and> deutsch_oracle_ops qc ''constant_1'' = Inr [Flip 1]
   \<and> deutsch_oracle_ops qc ''balanced_01'' = Inr [ControlledFlip 0 1]
   \<and> deutsch_oracle_ops qc ''balanced_10'' = Inr [Flip 1, ControlledFlip 0 1, Flip 1]
   \<and> deutsch_oracle qc ''constant_0'' = Inr qc
   \<and> deutsch_oracle qc ''constant_1'' = Inr (qc\<lparr>data := data qc @ [Flip 1]\<rparr>)
   \<and> deutsch_oracle qc ''balanced_01'' = Inr (qc\<lparr>data := data qc @ [ControlledFlip 0 1]\<rparr>)
   \<and> deutsch_oracle qc ''balanced_10'' =
       Inr (qc\<lparr>data := data qc @ [Flip 1, ControlledFlip 0 1, Flip 1]\<rparr>)"
  by (simp add: deutsch_oracle_ops_def deutsch_oracle_def qc_x_def qc_cx_def)

text \<open>
  Claim C4. For every number \<open>n \<ge> 1\<close> of input bits and each of the three oracle names
  that \<^verbatim>\<open>deutsch_jozsa_oracle\<close> recognises, the function emits exactly this gate
  sequence, with output bit \<open>n\<close>: \<^verbatim>\<open>constant_0\<close> nothing, \<^verbatim>\<open>constant_1\<close> the single
  flip of bit \<open>n\<close>, and \<^verbatim>\<open>balanced\<close> the single controlled flip of bit \<open>n\<close> by bit 0.
  The circuit is otherwise unchanged.
\<close>

theorem deutsch_jozsa_oracle_gate_sequences:
  "1 \<le> n \<Longrightarrow>
   deutsch_jozsa_oracle_ops qc ''constant_0'' n = []
   \<and> deutsch_jozsa_oracle_ops qc ''constant_1'' n = [Flip n]
   \<and> deutsch_jozsa_oracle_ops qc ''balanced'' n = [ControlledFlip 0 n]
   \<and> deutsch_jozsa_oracle qc ''constant_0'' n = qc
   \<and> deutsch_jozsa_oracle qc ''constant_1'' n = qc\<lparr>data := data qc @ [Flip n]\<rparr>
   \<and> deutsch_jozsa_oracle qc ''balanced'' n = qc\<lparr>data := data qc @ [ControlledFlip 0 n]\<rparr>"
  by (simp add: deutsch_jozsa_oracle_ops_def deutsch_jozsa_oracle_def qc_x_def qc_cx_def)

theorem deutsch_jozsa_oracle_gate_sequences_witness:
  "deutsch_jozsa_oracle_ops (new_circuit 4 3) ''constant_0'' 3 = []
   \<and> deutsch_jozsa_oracle_ops (new_circuit 4 3) ''constant_1'' 3 = [Flip 3]
   \<and> deutsch_jozsa_oracle_ops (new_circuit 4 3) ''balanced'' 3 = [ControlledFlip 0 3]"
  using deutsch_jozsa_oracle_gate_sequences [of 3 "new_circuit 4 3"]
  by simp

text \<open>
  Claim C5, as the claim states it, fails on the code: the claim asks that an oracle name
  outside the recognised set makes the encoder fail with an error for every number of
  input bits. \<^verbatim>\<open>deutsch_jozsa_oracle\<close> has no final \<^verbatim>\<open>else\<close>: on the name
  \<^verbatim>\<open>xor_3\<close>, which is none of its three names, with three input bits it returns
  normally and emits nothing, and \<^verbatim>\<open>deutsch_jozsa\<close> goes on to build the complete
  circuit, the same as for \<^verbatim>\<open>constant_0\<close>. On the same name \<^verbatim>\<open>deutsch_algorithm\<close>
  raises \<^verbatim>\<open>ValueError\<close>.
\<close>

theorem deutsch_jozsa_oracle_unrecognized_counterexample:
  "''xor_3'' \<notin> {''constant_0'', ''constant_1'', ''balanced''}
   \<and> deutsch_jozsa_oracle (new_circuit 4 3) ''xor_3'' 3 = new_circuit 4 3
   \<and> deutsch_jozsa_oracle_ops (new_circuit 4 3) ''xor_3'' 3 = []
   \<and> deutsch_jozsa_circuit 3 ''xor_3'' =
       \<lparr>num_qubits = 4, num_clbits = 3,
        data = [Flip 3, Hadamard 0, Hadamard 1, Hadamard 2, Hadamard 3,
                Hadamard 0, Hadamard 1, Hadamard 2, Measure [0, 1, 2] [0, 1, 2]]\<rparr>
   \<and> deutsch_jozsa_circuit 3 ''xor_3'' = deutsch_jozsa_circuit 3 ''constant_0''
   \<and> deutsch_oracle (new_circuit 2 1) ''xor_3'' = Inl (ValueError ''Invalid oracle type'')
   \<and> deutsch_algorithm_circuit ''xor_3'' = Inl (ValueError ''Invalid oracle type'')"
  by (simp add: deutsch_jozsa_oracle_ops_def deutsch_jozsa_oracle_def deutsch_jozsa_circuit_def
      deutsch_oracle_def deutsch_algorithm_circuit_def new_circuit_def qc_x_def qc_h_def
      qc_measure_def upt_rec)

text \<open>
  Claim C5, amended. For one input bit, every oracle name outside the four recognised
  ones makes the oracle block of \<^verbatim>\<open>deutsch_algorithm\<close> fail with
  \<^verbatim>\<open>ValueError("Invalid oracle type")\<close>: no gate sequence and no circuit comes out of
  it, and the block succeeds on exactly the four recognised names. For \<open>n\<close> input bits,
  \<^verbatim>\<open>deutsch_jozsa_oracle\<close> raises no error: on every name outside its three recognised
  ones it returns with the circuit as it was, so it emits no gate operation.
\<close>

theorem oracle_blocks_on_unrecognized_names:
  "(oracle_type \<notin> {''constant_0'', ''constant_1'', ''balanced_01'', ''balanced_10''} \<longrightarrow>
      deutsch_oracle qc oracle_type = Inl (ValueError ''Invalid oracle type'')
      \<and> deutsch_oracle_ops qc oracle_type = Inl (ValueError ''Invalid oracle type'')
      \<and> deutsch_algorithm_circuit oracle_type = Inl (ValueError ''Invalid oracle type''))
   \<and> ((\<exists>qc'. deutsch_oracle qc oracle_type = Inr qc') \<longleftrightarrow>
        oracle_type \<in> {''constant_0'', ''constant_1'', ''balanced_01'', ''balanced_10''})
   \<and> ((\<exists>ops. deutsch_oracle_ops qc oracle_type = Inr ops) \<longleftrightarrow>
        oracle_type \<in> {''constant_0'', ''constant_1'', ''balanced_01'', ''balanced_10''})
   \<and> (oracle_type \<notin> {''constant_0'', ''constant_1'', ''balanced''} \<longrightarrow>
        deutsch_jozsa_oracle qc oracle_type n = qc
        \<and> deutsch_jozsa_oracle_ops qc oracle_type n = [])"
proof -
  have invalid: "deutsch_oracle_ops qc oracle_type = Inl (ValueError ''Invalid oracle type'')"
    if "oracle_type \<notin> {''constant_0'', ''constant_1'', ''balanced_01'', ''balanced_10''}"
    using deutsch_oracle_unrecognized [OF that, of qc] by (simp add: deutsch_oracle_ops_def)
  have ops_iff: "(\<exists>ops. deutsch_oracle_ops qc oracle_type = Inr ops) \<longleftrightarrow>
      (\<exists>qc'. deutsch_oracle qc oracle_type = Inr qc')"
    by (cases "deutsch_oracle qc oracle_type") (simp_all add: deutsch_oracle_ops_def)
  have dj: "deutsch_jozsa_oracle qc oracle_type n = qc"
    if "oracle_type \<notin> {''constant_0'', ''constant_1'', ''balanced''}"
    using that by (simp add: deutsch_jozsa_oracle_def)
  show ?thesis
    using invalid dj ops_iff deutsch_oracle_unrecognized [of oracle_type qc]
      deutsch_algorithm_circuit_unrecognized [of oracle_type]
      deutsch_oracle_succeeds_iff [of qc oracle_type]
    by (simp add: deutsch_jozsa_oracle_ops_def)
qed

theorem oracle_blocks_on_unrecognized_names_witness:
  "deutsch_oracle (new_circuit 2 1) ''xor_3'' = Inl (ValueError ''Invalid oracle type'')
   \<and> deutsch_oracle_ops (new_circuit 2 1) ''xor_3'' = Inl (ValueError ''Invalid oracle type'')
   \<and> deutsch_algorithm_circuit ''xor_3'' = Inl (ValueError ''Invalid oracle type'')
   \<and> deutsch_jozsa_oracle (new_circuit 2 1) ''xor_3'' 3 = new_circuit 2 1
   \<and> deutsch_jozsa_oracle_ops (new_circuit 2 1) ''xor_3'' 3 = []"
  using oracle_blocks_on_unrecognized_names [of "''xor_3''" "new_circuit 2 1" 3]
  by simp

text \<open>
  Claim C7. Both oracle blocks are stateless: the gate sequence (or the error) that a
  block produces for an oracle name and a number of input bits is the same at every
  invocation, whatever the circuit it is invoked on holds already.
\<close>

theorem oracle_encoders_stateless:
  "deutsch_oracle_ops qc1 oracle_type = deutsch_oracle_ops qc2 oracle_type
   \<and> deutsch_jozsa_oracle_ops qc1 oracle_type n = deutsch_jozsa_oracle_ops qc2 oracle_type n"
  by (simp add: deutsch_oracle_ops_def deutsch_oracle_def deutsch_jozsa_oracle_ops_def
      deutsch_jozsa_oracle_def qc_x_def qc_cx_def)

section \<open>The Deutsch-Jozsa classifier\<close>

text \<open>
  Claim C3, as the claim states it, fails on the code: the claim speaks of every number
  \<open>n \<ge> 1\<close> of input bits, while the classifier of the script compares each key with the
  fixed string \<^verbatim>\<open>'0'*3\<close>. For two input bits the histogram \<^verbatim>\<open>{"00": 1024}\<close> has no
  key but the all-zero bitstring of length 2, and the classifier answers
  \<^verbatim>\<open>'balanced'\<close>.
\<close>

theorem is_constant_other_width_counterexample:
  "list_all (\<lambda>key. key = replicate 2 CHR ''0'') (dict_keys [(''00'', 1024)])
   \<and> \<not> is_constant [(''00'', 1024)]
   \<and> dj_label [(''00'', 1024)] = ''balanced''"
  by (simp add: is_constant_def dj_label_def dict_keys_def numeral_2_eq_2 numeral_3_eq_3)

text \<open>
  Claim C3, amended. For three input bits, the width the script's classifier is written
  for, and every histogram, the classifier answers \<^verbatim>\<open>'constant'\<close> exactly when every
  key of the histogram is the all-zero bitstring of length 3; a histogram with any other
  key is classified \<^verbatim>\<open>'balanced'\<close>, whatever that key's count.
\<close>

theorem is_constant_iff_all_keys_000:
  "(is_constant counts \<longleftrightarrow> (\<forall>key \<in> set (dict_keys counts). key = replicate 3 CHR ''0''))
   \<and> (dj_label counts = ''constant'' \<longleftrightarrow>
        (\<forall>key \<in> set (dict_keys counts). key = replicate 3 CHR ''0''))
   \<and> (key \<in> set (dict_keys counts) \<and> key \<noteq> replicate 3 CHR ''0'' \<longrightarrow>
        dj_label counts = ''balanced'')"
  by (auto simp: is_constant_def dj_label_def list_all_iff)

theorem is_constant_iff_all_keys_000_witness:
  "is_constant [(''000'', 1024)] \<and> dj_label [(''000'', 1024)] = ''constant''
   \<and> dj_label [(''000'', 500), (''101'', 524)] = ''balanced''"
  using is_constant_iff_all_keys_000 [of "[(''000'', 1024)]" "''101''"]
    is_constant_iff_all_keys_000 [of "[(''000'', 500), (''101'', 524)]" "''101''"]
  by (simp add: dict_keys_def numeral_3_eq_3)

text \<open>
  Claim C10. The Deutsch-Jozsa classifier looks at the keys of the histogram only, never
  at the counts: two histograms with the same set of keys are classified alike. In
  particular a key other than the all-zero bitstring forces \<^verbatim>\<open>'balanced'\<close> even when
  its count is 0.
\<close>

theorem is_constant_depends_only_on_keys:
  "(set (dict_keys h1) = set (dict_keys h2) \<longrightarrow>
      is_constant h1 = is_constant h2 \<and> dj_label h1 = dj_label h2)
   \<and> (key \<noteq> replicate 3 CHR ''0'' \<longrightarrow>
        \<not> is_constant (counts @ [(key, 0)]) \<and> dj_label (counts @ [(key, 0)]) = ''balanced'')"
  by (auto simp: is_constant_def dj_label_def list_all_iff dict_keys_def)

theorem is_constant_depends_only_on_keys_witness:
  "is_constant [(''000'', 1024), (''101'', 0)] = is_constant [(''101'', 7), (''000'', 1)]
   \<and> dj_label [(''000'', 1024), (''101'', 0)] = dj_label [(''101'', 7), (''000'', 1)]
   \<and> dj_label ([(''000'', 1024)] @ [(''101'', 0)]) = ''balanced''"
  using is_constant_depends_only_on_keys
      [of "[(''000'', 1024), (''101'', 0)]" "[(''101'', 7), (''000'', 1)]" "''101''" "[(''000'', 1024)]"]
  by (simp add: dict_keys_def insert_commute numeral_3_eq_3 is_constant_def dj_label_def)

section \<open>Both classifiers\<close>

text \<open>
  Claim C6. Both classifiers are total, with \<^verbatim>\<open>'balanced'\<close> as the default. On every
  histogram \<^verbatim>\<open>interpret_result\<close> returns one of the two labels and never raises (the
  read \<^verbatim>\<open>counts['0']\<close> is guarded by \<^verbatim>\<open>'0' in counts\<close>), and so does the
  Deutsch-Jozsa classifier. A histogram that does not meet the condition for
  \<^verbatim>\<open>'constant'\<close> is classified \<^verbatim>\<open>'balanced'\<close>: for \<^verbatim>\<open>interpret_result\<close> the
  condition is that \<^verbatim>\<open>"0"\<close> is a key whose count is strictly greater than the count of
  \<^verbatim>\<open>"1"\<close> (0 when absent), for the Deutsch-Jozsa classifier that every key is the
  all-zero bitstring of length 3. A histogram that meets the condition is classified
  \<^verbatim>\<open>'constant'\<close>.
\<close>

theorem classifiers_total:
  "(interpret_result counts = Inr ''constant'' \<or> interpret_result counts = Inr ''balanced'')
   \<and> (\<forall>e. interpret_result counts \<noteq> Inl e)
   \<and> (dj_label counts = ''constant'' \<or> dj_label counts = ''balanced'')
   \<and> (\<not> (\<exists>c0. map_of counts ''0'' = Some c0 \<and>
              c0 > (case map_of counts ''1'' of None \<Rightarrow> 0 | Some c1 \<Rightarrow> c1)) \<longrightarrow>
        interpret_result counts = Inr ''balanced'')
   \<and> ((\<exists>c0. map_of counts ''0'' = Some c0 \<and>
              c0 > (case map_of counts ''1'' of None \<Rightarrow> 0 | Some c1 \<Rightarrow> c1)) \<longrightarrow>
        interpret_result counts = Inr ''constant'')
   \<and> (\<not> (\<forall>key \<in> set (dict_keys counts). key = replicate 3 CHR ''0'') \<longrightarrow>
        \<not> is_constant counts \<and> dj_label counts = ''balanced'')
   \<and> ((\<forall>key \<in> set (dict_keys counts). key = replicate 3 CHR ''0'') \<longrightarrow>
        is_constant counts \<and> dj_label counts = ''constant'')"
proof -
  have n1: "interpret_result counts =
      (if \<exists>c0. map_of counts ''0'' = Some c0 \<and>
               c0 > (case map_of counts ''1'' of None \<Rightarrow> 0 | Some c1 \<Rightarrow> c1)
       then Inr ''constant'' else Inr ''balanced'')"
    by (simp add: interpret_result_map_of dict_get_def split: option.splits)
  have dj: "is_constant counts \<longleftrightarrow> (\<forall>key \<in> set (dict_keys counts). key = replicate 3 CHR ''0'')"
    by (simp add: is_constant_def list_all_iff)
  show ?thesis
    unfolding n1 dj_label_def dj by simp
qed

theorem classifiers_total_witness:
  "interpret_result [(''1'', 1024)] = Inr ''balanced''
   \<and> interpret_result [(''0'', 5), (''1'', 5)] = Inr ''balanced''
   \<and> interpret_result [(''0'', 1024)] = Inr ''constant''
   \<and> \<not> is_constant [(''101'', 1024)]
   \<and> dj_label [(''101'', 1024)] = ''balanced''
   \<and> dj_label [(''000'', 500), (''101'', 524)] = ''balanced''
   \<and> dj_label [(''000'', 1024)] = ''constant''"
  using classifiers_total [of "[(''1'', 1024)]"]
    classifiers_total [of "[(''0'', 5), (''1'', 5)]"]
    classifiers_total [of "[(''0'', 1024)]"]
    classifiers_total [of "[(''101'', 1024)]"]
    classifiers_total [of "[(''000'', 500), (''101'', 524)]"]
    classifiers_total [of "[(''000'', 1024)]"]
  by (simp add: dict_keys_def numeral_3_eq_3)

text \<open>
  Claim C8. On the empty histogram the two classifiers disagree: the Deutsch-Jozsa
  classifier answers \<^verbatim>\<open>'constant'\<close>, since \<^verbatim>\<open>all\<close> of no keys is true, and
  \<^verbatim>\<open>interpret_result\<close> answers \<^verbatim>\<open>'balanced'\<close>.
\<close>

theorem empty_histogram_policies_disagree:
  "is_constant [] \<and> dj_label [] = ''constant'' \<and> interpret_result [] = Inr ''balanced''"
  by (simp add: is_constant_def dj_label_def dict_keys_def interpret_result_map_of)

end
